theory Spec2Isabelle
  imports Main "HOL-Library.Sublist" "HOL-Library.Product_Lexorder"
begin

section \<open>Python strings\<close>

text \<open>
  A Python \<open>str\<close> is modelled as a \<open>string\<close>: a list of characters, each a code point
  below 256 (ASCII and Latin-1). The string methods the scraper calls are written out
  for that range.
\<close>

definition whitespace :: string where
  "whitespace = [CHR 0x09, CHR 0x0A, CHR 0x0B, CHR 0x0C, CHR 0x0D, CHR 0x1C, CHR 0x1D,
                 CHR 0x1E, CHR 0x1F, CHR 0x20, CHR 0x85, CHR 0xA0]"

definition isspace :: "char \<Rightarrow> bool" where
  "isspace c = (c \<in> set whitespace)"

definition strip :: "string \<Rightarrow> string" where
  "strip s = rev (dropWhile isspace (rev (dropWhile isspace s)))"

definition rstrip :: "string \<Rightarrow> string \<Rightarrow> string" where
  "rstrip chars s = rev (dropWhile (\<lambda>c. c \<in> set chars) (rev s))"

definition startswith :: "string \<Rightarrow> string \<Rightarrow> bool" where
  "startswith s p = prefix p s"

definition contains :: "string \<Rightarrow> string \<Rightarrow> bool" where
  "contains s sub = sublist sub s"

definition replace :: "char \<Rightarrow> char \<Rightarrow> string \<Rightarrow> string" where
  "replace old new s = map (\<lambda>c. if c = old then new else c) s"

text \<open>
  \<open>lower\<close> on one character: the upper-case letters are the codes 65 to 90 and, in
  Latin-1, 192 to 222 without 215; the lower-case letter is 32 higher (bit 5 set).
\<close>

definition lower_char :: "char \<Rightarrow> char" where
  "lower_char c =
     (let n = of_char c :: nat
      in if (65 \<le> n \<and> n \<le> 90) \<or> (192 \<le> n \<and> n \<le> 222 \<and> n \<noteq> 215)
         then (case c of Char b0 b1 b2 b3 b4 b5 b6 b7 \<Rightarrow> Char b0 b1 b2 b3 b4 True b6 b7)
         else c)"

definition lower :: "string \<Rightarrow> string" where
  "lower s = map lower_char s"

definition digits :: string where
  "digits = ''0123456789''"

text \<open>\<open>str(n)\<close> and \<open>int(s)\<close> for a non-negative integer in decimal.\<close>

fun str_nat :: "nat \<Rightarrow> string" where
  "str_nat n = (if n < 10 then [digits ! n] else str_nat (n div 10) @ [digits ! (n mod 10)])"

declare str_nat.simps [simp del]

definition index_of :: "'a \<Rightarrow> 'a list \<Rightarrow> nat" where
  "index_of x xs = length (takeWhile (\<lambda>y. y \<noteq> x) xs)"

definition int_of_str :: "string \<Rightarrow> nat" where
  "int_of_str s = foldl (\<lambda>a c. 10 * a + index_of c digits) 0 (strip s)"

text \<open>\<open>"%0wd" % n\<close>: decimal, padded with zeros to at least \<open>w\<close> characters.\<close>

definition zfill :: "nat \<Rightarrow> nat \<Rightarrow> string" where
  "zfill w n = replicate (w - length (str_nat n)) CHR ''0'' @ str_nat n"

section \<open>datetime\<close>

text \<open>
  A \<open>datetime\<close> value: the seven fields and \<open>tzinfo\<close>, here the UTC offset in
  microseconds of an aware value and \<open>None\<close> for a naive one.
\<close>

record datetime =
  year :: nat
  month :: nat
  day :: nat
  hour :: nat
  minute :: nat
  second :: nat
  microsecond :: nat
  tzinfo :: "int option"

datatype exn = TypeError | RequestException string

text \<open>\<open>str(e)\<close>, as the aggregator prints it.\<close>

fun exn_str :: "exn \<Rightarrow> string" where
  "exn_str TypeError = ''can't compare offset-naive and offset-aware datetimes''"
| "exn_str (RequestException msg) = msg"

definition is_leap :: "nat \<Rightarrow> bool" where
  "is_leap y = (y mod 4 = 0 \<and> (y mod 100 \<noteq> 0 \<or> y mod 400 = 0))"

definition days_in_month :: "nat \<Rightarrow> nat \<Rightarrow> nat" where
  "days_in_month y m =
     (if m = 2 \<and> is_leap y then 29 else [0, 31, 28, 31, 30, 31, 30, 31, 31, 30, 31, 30, 31] ! m)"

definition days_before_year :: "nat \<Rightarrow> int" where
  "days_before_year y = (let p = int y - 1 in p * 365 + p div 4 - p div 100 + p div 400)"

definition days_before_month :: "nat \<Rightarrow> nat \<Rightarrow> int" where
  "days_before_month y m =
     [0, 0, 31, 59, 90, 120, 151, 181, 212, 243, 273, 304, 334] ! m
       + (if m > 2 \<and> is_leap y then 1 else 0)"

definition toordinal :: "datetime \<Rightarrow> int" where
  "toordinal d = days_before_year (year d) + days_before_month (year d) (month d) + int (day d)"

text \<open>The date check of the \<open>date\<close> and \<open>datetime\<close> constructors (ValueError otherwise).\<close>

definition check_date_fields :: "nat \<Rightarrow> nat \<Rightarrow> nat \<Rightarrow> bool" where
  "check_date_fields y m d =
     (1 \<le> y \<and> y \<le> 9999 \<and> 1 \<le> m \<and> m \<le> 12 \<and> 1 \<le> d \<and> d \<le> days_in_month y m)"

text \<open>
  Comparison, \<open>a < b\<close>. Equal offsets (both naive, or the same offset) compare the field
  tuples; two aware values with different offsets compare after subtracting the
  offsets; a naive and an aware value raise TypeError. \<open>a > b\<close> is \<open>b < a\<close>.
\<close>

definition dt_tuple :: "datetime \<Rightarrow> nat \<times> nat \<times> nat \<times> nat \<times> nat \<times> nat \<times> nat" where
  "dt_tuple d = (year d, month d, day d, hour d, minute d, second d, microsecond d)"

definition local_us :: "datetime \<Rightarrow> int" where
  "local_us d =
     (toordinal d * 86400 + (int (second d) + int (minute d) * 60 + int (hour d) * 3600)) * 1000000
       + int (microsecond d)"

definition dt_lt :: "datetime \<Rightarrow> datetime \<Rightarrow> exn + bool" where
  "dt_lt a b =
     (if tzinfo a = tzinfo b then Inr (dt_tuple a < dt_tuple b)
      else (case (tzinfo a, tzinfo b) of
              (Some myoff, Some otoff) \<Rightarrow> Inr (local_us a - myoff < local_us b - otoff)
            | _ \<Rightarrow> Inl TypeError))"

definition dt_gt :: "datetime \<Rightarrow> datetime \<Rightarrow> exn + bool" where
  "dt_gt a b = dt_lt b a"

text \<open>\<open>datetime.isoformat()\<close>: date, \<open>T\<close>, time, the fraction when it is not zero, the offset.\<close>

definition format_offset :: "int option \<Rightarrow> string" where
  "format_offset off =
     (case off of
        None \<Rightarrow> []
      | Some v \<Rightarrow>
          (let a = nat \<bar>v\<bar>;
               hh = a div 3600000000;
               mm = (a mod 3600000000) div 60000000;
               ss = (a mod 60000000) div 1000000;
               us = a mod 1000000
           in (if v < 0 then ''-'' else ''+'') @ zfill 2 hh @ '':'' @ zfill 2 mm
                @ (if ss \<noteq> 0 \<or> us \<noteq> 0
                   then '':'' @ zfill 2 ss @ (if us \<noteq> 0 then ''.'' @ zfill 6 us else [])
                   else [])))"

definition isoformat_date :: "datetime \<Rightarrow> string" where
  "isoformat_date d = zfill 4 (year d) @ ''-'' @ zfill 2 (month d) @ ''-'' @ zfill 2 (day d)"

definition isoformat_time :: "datetime \<Rightarrow> string" where
  "isoformat_time d =
     zfill 2 (hour d) @ '':'' @ zfill 2 (minute d) @ '':'' @ zfill 2 (second d)
       @ (if microsecond d \<noteq> 0 then ''.'' @ zfill 6 (microsecond d) else [])
       @ format_offset (tzinfo d)"

definition isoformat :: "datetime \<Rightarrow> string" where
  "isoformat d = isoformat_date d @ ''T'' @ isoformat_time d"

section \<open>datetime.strptime\<close>

text \<open>
  \<open>strptime\<close> turns the format into a regular expression, matches it at the start of
  the data (case ignored), requires the match to cover all of the data, and builds the
  date from the named groups. The model covers the directives the scraper's formats
  use (\<open>%Y %m %d %B %b\<close> and \<open>%%\<close>), in the C locale; a format with another directive
  is outside it.
\<close>

datatype directive = Dir_Y | Dir_m | Dir_d | Dir_B | Dir_b

datatype re_item = Group directive | Lit char | Spaces

fun directive_of :: "char \<Rightarrow> re_item option" where
  "directive_of c =
     (if c = CHR ''Y'' then Some (Group Dir_Y)
      else if c = CHR ''m'' then Some (Group Dir_m)
      else if c = CHR ''d'' then Some (Group Dir_d)
      else if c = CHR ''B'' then Some (Group Dir_B)
      else if c = CHR ''b'' then Some (Group Dir_b)
      else if c = CHR ''%'' then Some (Lit CHR ''%'')
      else None)"

text \<open>One item per character; a run of whitespace is one \<open>\s+\<close>.\<close>

fun format_items :: "string \<Rightarrow> re_item list option" where
  "format_items [] = Some []"
| "format_items [c] =
     (if c = CHR ''%'' then None
      else Some [if isspace c then Spaces else Lit c])"
| "format_items (c # c' # cs) =
     (if c = CHR ''%'' then
        (case directive_of c' of
           None \<Rightarrow> None
         | Some it \<Rightarrow> map_option ((#) it) (format_items cs))
      else if isspace c then
        (if isspace c' then format_items (c' # cs)
         else map_option ((#) Spaces) (format_items (c' # cs)))
      else map_option ((#) (Lit c)) (format_items (c' # cs)))"

definition group_names :: "re_item list \<Rightarrow> directive list" where
  "group_names its = concat (map (\<lambda>it. case it of Group g \<Rightarrow> [g] | _ \<Rightarrow> []) its)"

text \<open>A group name used twice does not compile (\<open>re.error\<close>).\<close>

definition format_regex :: "string \<Rightarrow> re_item list option" where
  "format_regex fmt =
     (case format_items fmt of
        None \<Rightarrow> None
      | Some its \<Rightarrow> if distinct (group_names its) then Some its else None)"

definition f_month :: "string list" where
  "f_month = ['''', ''january'', ''february'', ''march'', ''april'', ''may'', ''june'', ''july'',
              ''august'', ''september'', ''october'', ''november'', ''december'']"

definition a_month :: "string list" where
  "a_month = ['''', ''jan'', ''feb'', ''mar'', ''apr'', ''may'', ''jun'', ''jul'', ''aug'', ''sep'',
              ''oct'', ''nov'', ''dec'']"

text \<open>\<open>sorted(names, key=len, reverse=True)\<close>: longest first, equal lengths in their order.\<close>

definition seqToRE :: "string list \<Rightarrow> string list list" where
  "seqToRE to_convert =
     map (map (\<lambda>c. [c])) (sort_key (\<lambda>s. - int (length s)) to_convert)"

text \<open>
  The alternatives of a group, in the order the regular expression tries them; an
  alternative lists the characters allowed at each position.
\<close>

fun alternatives :: "directive \<Rightarrow> string list list" where
  "alternatives Dir_Y = [[digits, digits, digits, digits]]"
| "alternatives Dir_m = [[''1'', ''012''], [''0'', ''123456789''], [''123456789'']]"
| "alternatives Dir_d =
     [[''3'', ''01''], [''12'', digits], [''0'', ''123456789''], [''123456789''],
      ['' '', ''123456789'']]"
| "alternatives Dir_B = seqToRE (tl f_month)"
| "alternatives Dir_b = seqToRE (tl a_month)"

fun match_alt :: "string list \<Rightarrow> string \<Rightarrow> (string \<times> string) option" where
  "match_alt [] s = Some ([], s)"
| "match_alt (cls # rest) [] = None"
| "match_alt (cls # rest) (x # xs) =
     (if lower_char x \<in> set cls
      then (case match_alt rest xs of
              Some (m, r) \<Rightarrow> Some (x # m, r)
            | None \<Rightarrow> None)
      else None)"

fun match_alts :: "string list list \<Rightarrow> string \<Rightarrow> (string \<times> string) list" where
  "match_alts [] s = []"
| "match_alts (a # as) s =
     (case match_alt a s of
        None \<Rightarrow> match_alts as s
      | Some r \<Rightarrow> r # match_alts as s)"

definition match_group :: "directive \<Rightarrow> string \<Rightarrow> (string \<times> string) list" where
  "match_group g s = match_alts (alternatives g) s"

text \<open>
  All the ways the expression matches a prefix of the data, in backtracking order: the
  groups found and the unmatched rest. \<open>re.match\<close> returns the first.
\<close>

fun re_match :: "re_item list \<Rightarrow> string \<Rightarrow> ((directive \<times> string) list \<times> string) list" where
  "re_match [] s = [([], s)]"
| "re_match (Group g # r) s =
     concat (map (\<lambda>(txt, rest). map (\<lambda>(found, fin). ((g, txt) # found, fin)) (re_match r rest))
                 (match_group g s))"
| "re_match (Lit c # r) s =
     (case s of
        [] \<Rightarrow> []
      | x # xs \<Rightarrow> if lower_char x = lower_char c then re_match r xs else [])"
| "re_match (Spaces # r) s =
     concat (map (\<lambda>k. re_match r (drop k s)) (rev [1..<Suc (length (takeWhile isspace s))]))"

text \<open>The loop over the groups found: year, month and day, from their defaults.\<close>

fun group_value :: "directive \<times> string \<Rightarrow> nat option \<times> nat \<times> nat \<Rightarrow> nat option \<times> nat \<times> nat" where
  "group_value (Dir_Y, txt) (y, m, d) = (Some (int_of_str txt), m, d)"
| "group_value (Dir_m, txt) (y, m, d) = (y, int_of_str txt, d)"
| "group_value (Dir_B, txt) (y, m, d) = (y, index_of (lower txt) f_month, d)"
| "group_value (Dir_b, txt) (y, m, d) = (y, index_of (lower txt) a_month, d)"
| "group_value (Dir_d, txt) (y, m, d) = (y, m, int_of_str txt)"

definition found_date :: "(directive \<times> string) list \<Rightarrow> datetime option" where
  "found_date found =
     (case foldl (\<lambda>acc g. group_value g acc) (None, 1, 1) found of
        (y, m, d) \<Rightarrow>
          (let yr = (case y of Some v \<Rightarrow> v | None \<Rightarrow> 1900)
           in if check_date_fields yr m d
              then Some \<lparr>year = yr, month = m, day = d, hour = 0, minute = 0, second = 0,
                         microsecond = 0, tzinfo = None\<rparr>
              else None))"

definition strptime :: "string \<Rightarrow> string \<Rightarrow> datetime option" where
  "strptime data_string fmt =
     (case format_regex fmt of
        None \<Rightarrow> None
      | Some re \<Rightarrow>
          (case re_match re data_string of
             [] \<Rightarrow> None
           | (found, rest) # _ \<Rightarrow> if rest \<noteq> [] then None else found_date found))"

section \<open>The date filter\<close>

text \<open>
  \<open>parse_date_try\<close>: the formats in order, the first that parses wins; then
  \<open>datetime.fromisoformat\<close> on the text as given; every exception is caught.
  \<open>fromisoformat\<close> accepts different texts in different Python versions, so it is a
  parameter: the text to its result, \<open>None\<close> when it raises.
\<close>

definition FORMATS :: "string list" where
  "FORMATS = [''%Y-%m-%d'', ''%d-%m-%Y'', ''%d %B %Y'', ''%B %d, %Y'', ''%b %d, %Y'']"

fun try_formats :: "string \<Rightarrow> string list \<Rightarrow> datetime option" where
  "try_formats dt_str [] = None"
| "try_formats dt_str (fmt # fmts) =
     (case strptime (strip dt_str) fmt of
        Some d \<Rightarrow> Some d
      | None \<Rightarrow> try_formats dt_str fmts)"

definition parse_date_try :: "(string \<Rightarrow> datetime option) \<Rightarrow> string \<Rightarrow> datetime option" where
  "parse_date_try fromisoformat dt_str =
     (case try_formats dt_str FORMATS of
        Some d \<Rightarrow> Some d
      | None \<Rightarrow> fromisoformat dt_str)"

text \<open>\<open>within_range\<close>: a bound that is \<open>None\<close> is not consulted.\<close>

definition within_range :: "datetime \<Rightarrow> datetime option \<Rightarrow> datetime option \<Rightarrow> exn + bool" where
  "within_range date_obj start end =
     (case (case start of
              None \<Rightarrow> Inr False
            | Some s \<Rightarrow> dt_lt date_obj s) of
        Inl e \<Rightarrow> Inl e
      | Inr True \<Rightarrow> Inr False
      | Inr False \<Rightarrow>
          (case (case end of
                   None \<Rightarrow> Inr False
                 | Some e \<Rightarrow> dt_gt date_obj e) of
             Inl e \<Rightarrow> Inl e
           | Inr True \<Rightarrow> Inr False
           | Inr False \<Rightarrow> Inr True))"

section \<open>Pages and cards\<close>

text \<open>
  The HTML parser and the CSS selection are library code; the model takes what they
  return. A found element is the text the scraper reads from it, \<open>None\<close> when the
  finder returns nothing. A card carries the results of the finders of the pipeline
  that reads it: the title heading, \<open>div.review-body\<close> (TrustRadius only), the first
  \<open>p\<close>, the date element, the rating element, the reviewer element and the first
  \<open>strong\<close>.
\<close>

record date_elem =
  datetime_attr :: "string option"
  elem_text :: string

record card =
  title_tag :: "string option"
  review_body_tag :: "string option"
  p_tag :: "string option"
  date_tag :: "date_elem option"
  rating_tag :: "string option"
  reviewer_tag :: "string option"
  strong_tag :: "string option"

text \<open>
  A response: the status, the \<open>href\<close> of the first search-result link (\<open>None\<close> without a
  link or without the attribute), and the cards of the first and of the alternate
  selector. A session answers its \<open>n\<close>-th request for a URL, or raises.
\<close>

record response =
  status_code :: nat
  link_href :: "string option"
  select_first :: "card list"
  select_alternate :: "card list"

type_synonym session = "nat \<Rightarrow> string \<Rightarrow> exn + response"

record review =
  title :: string
  review :: string
  date :: string
  rating :: string
  reviewer :: string
  source :: string

datatype site = G2 | Capterra | TrustRadius

fun source_tag :: "site \<Rightarrow> string" where
  "source_tag G2 = ''g2''"
| "source_tag Capterra = ''capterra''"
| "source_tag TrustRadius = ''trustradius''"

section \<open>The three pipelines\<close>

text \<open>
  \<open>scrape_g2\<close>, \<open>scrape_capterra\<close> and \<open>scrape_trustradius\<close> are the same code up to
  their constants, selectors and page URL; the model writes the body once, by cases on
  the site where they differ.
\<close>

subsection \<open>The product URL\<close>

fun search_prefix :: "site \<Rightarrow> string" where
  "search_prefix G2 = ''https://www.g2.com/search?q=''"
| "search_prefix Capterra = ''https://www.capterra.com/search?q=''"
| "search_prefix TrustRadius = ''https://www.trustradius.com/search?query=''"

fun base_url :: "site \<Rightarrow> string" where
  "base_url G2 = ''https://www.g2.com''"
| "base_url Capterra = ''https://www.capterra.com''"
| "base_url TrustRadius = ''https://www.trustradius.com''"

fun fallback_url :: "site \<Rightarrow> string \<Rightarrow> string" where
  "fallback_url G2 slug = ''https://www.g2.com/products/'' @ slug @ ''/reviews''"
| "fallback_url Capterra slug = ''https://www.capterra.com/p/'' @ slug @ ''/#reviews''"
| "fallback_url TrustRadius slug = ''https://www.trustradius.com/products/'' @ slug @ ''/reviews''"

text \<open>The result: how many requests the session has served, and the URL.\<close>

definition product_url_of :: "site \<Rightarrow> session \<Rightarrow> string \<Rightarrow> exn + (nat \<times> string)" where
  "product_url_of st session company =
     (if startswith company ''http'' then Inr (0, rstrip ''/'' company)
      else
        (let q = replace CHR '' '' CHR ''+'' company;
             search_url = search_prefix st @ q
         in case session 0 search_url of
              Inl e \<Rightarrow> Inl e
            | Inr r \<Rightarrow>
                (case link_href r of
                   Some href \<Rightarrow>
                     if href \<noteq> [] then Inr (1, base_url st @ href)
                     else Inr (1, fallback_url st (replace CHR '' '' CHR ''-'' (lower company)))
                 | None \<Rightarrow> Inr (1, fallback_url st (replace CHR '' '' CHR ''-'' (lower company))))))"

subsection \<open>The page URL and the cards of a page\<close>

fun page_url_of :: "site \<Rightarrow> string \<Rightarrow> nat \<Rightarrow> string" where
  "page_url_of G2 product_url page =
     product_url @ (if \<not> contains product_url ''?'' then ''?page='' @ str_nat page
                    else ''&page='' @ str_nat page)"
| "page_url_of Capterra product_url page =
     product_url @ (if \<not> contains product_url ''?'' then ''?page='' @ str_nat page
                    else ''&page='' @ str_nat page)"
| "page_url_of TrustRadius product_url page =
     product_url @ (if \<not> contains product_url ''/reviews'' then ''/reviews?page='' @ str_nat page
                    else ''?page='' @ str_nat page)"

fun select_items :: "site \<Rightarrow> response \<Rightarrow> card list" where
  "select_items G2 r = (if select_first r = [] then select_alternate r else select_first r)"
| "select_items Capterra r = (if select_first r = [] then select_alternate r else select_first r)"
| "select_items TrustRadius r = select_first r"

subsection \<open>One card\<close>

definition text_or_empty :: "string option \<Rightarrow> string" where
  "text_or_empty tag = (case tag of Some t \<Rightarrow> t | None \<Rightarrow> [])"

definition or_else :: "'a option \<Rightarrow> 'a option \<Rightarrow> 'a option" where
  "or_else a b = (case a of Some x \<Rightarrow> Some x | None \<Rightarrow> b)"

fun body_of :: "site \<Rightarrow> card \<Rightarrow> string option" where
  "body_of G2 it = p_tag it"
| "body_of Capterra it = p_tag it"
| "body_of TrustRadius it = or_else (review_body_tag it) (p_tag it)"

definition date_text_of :: "card \<Rightarrow> string" where
  "date_text_of it =
     (case date_tag it of
        None \<Rightarrow> []
      | Some t \<Rightarrow>
          (case datetime_attr t of
             Some a \<Rightarrow> if a \<noteq> [] then a else elem_text t
           | None \<Rightarrow> elem_text t))"

definition date_obj_of :: "(string \<Rightarrow> datetime option) \<Rightarrow> card \<Rightarrow> datetime option" where
  "date_obj_of fromisoformat it =
     (if date_text_of it \<noteq> [] then parse_date_try fromisoformat (date_text_of it) else None)"

definition make_review :: "site \<Rightarrow> card \<Rightarrow> datetime option \<Rightarrow> review" where
  "make_review st it date_obj =
     \<lparr>title = text_or_empty (title_tag it),
      review = text_or_empty (body_of st it),
      date = (case date_obj of Some d \<Rightarrow> isoformat d | None \<Rightarrow> date_text_of it),
      rating = text_or_empty (rating_tag it),
      reviewer = text_or_empty (or_else (reviewer_tag it) (strong_tag it)),
      source = source_tag st\<rparr>"

text \<open>
  One pass of the loop body: \<open>Inl\<close> when the comparison raises, \<open>Inr None\<close> on
  \<open>continue\<close>, \<open>Inr (Some r)\<close> when \<open>r\<close> is appended.
\<close>

definition process_card :: "site \<Rightarrow> (string \<Rightarrow> datetime option) \<Rightarrow> datetime option \<Rightarrow> datetime option
    \<Rightarrow> card \<Rightarrow> exn + review option" where
  "process_card st fromisoformat start end it =
     (case date_obj_of fromisoformat it of
        None \<Rightarrow> Inr (Some (make_review st it None))
      | Some d \<Rightarrow>
          (case within_range d start end of
             Inl e \<Rightarrow> Inl e
           | Inr False \<Rightarrow> Inr None
           | Inr True \<Rightarrow> Inr (Some (make_review st it (Some d)))))"

text \<open>\<open>for it in items\<close>, with the list \<open>reviews\<close> and the counter \<open>added\<close>.\<close>

fun for_items :: "(card \<Rightarrow> exn + review option) \<Rightarrow> card list \<Rightarrow> review list \<Rightarrow> nat
    \<Rightarrow> exn + (review list \<times> nat)" where
  "for_items body [] reviews added = Inr (reviews, added)"
| "for_items body (it # its) reviews added =
     (case body it of
        Inl e \<Rightarrow> Inl e
      | Inr None \<Rightarrow> for_items body its reviews added
      | Inr (Some r) \<Rightarrow> for_items body its (reviews @ [r]) (added + 1))"

subsection \<open>The page loop\<close>

text \<open>
  \<open>while True\<close>: the state is the page number, the reviews so far, the lines printed
  to the error stream and the number of requests made. The loop may run forever
  (\<open>None\<close>); otherwise it ends with the lines printed and either the exception that
  left the pipeline or the list returned. The pause between pages is not modelled.
\<close>

partial_function (option) paginate ::
  "site \<Rightarrow> (string \<Rightarrow> datetime option) \<Rightarrow> session \<Rightarrow> datetime option \<Rightarrow> datetime option
    \<Rightarrow> string \<Rightarrow> nat \<Rightarrow> nat \<Rightarrow> review list \<Rightarrow> string list
    \<Rightarrow> (string list \<times> (exn + review list)) option" where
  "paginate st fromisoformat session start end product_url n page reviews log =
     (let page_url = page_url_of st product_url page;
          log' = log @ [''Fetching '' @ page_url]
      in case session n page_url of
           Inl e \<Rightarrow> Some (log', Inl e)
         | Inr r \<Rightarrow>
             if status_code r \<noteq> 200 then Some (log', Inr reviews)
             else if select_items st r = [] then Some (log', Inr reviews)
             else
               (case for_items (process_card st fromisoformat start end) (select_items st r) reviews 0 of
                  Inl e \<Rightarrow> Some (log', Inl e)
                | Inr (reviews', added) \<Rightarrow>
                    if added = 0 then Some (log', Inr reviews')
                    else paginate st fromisoformat session start end product_url
                           (n + 1) (page + 1) reviews' log'))"

definition scrape :: "site \<Rightarrow> (string \<Rightarrow> datetime option) \<Rightarrow> session \<Rightarrow> string
    \<Rightarrow> datetime option \<Rightarrow> datetime option \<Rightarrow> (string list \<times> (exn + review list)) option" where
  "scrape st fromisoformat session company start end =
     (case product_url_of st session company of
        Inl e \<Rightarrow> Some ([], Inl e)
      | Inr (n, product_url) \<Rightarrow>
          paginate st fromisoformat session start end product_url n 1 [] [])"

definition scrape_g2 :: "(string \<Rightarrow> datetime option) \<Rightarrow> session \<Rightarrow> string
    \<Rightarrow> datetime option \<Rightarrow> datetime option \<Rightarrow> (string list \<times> (exn + review list)) option" where
  "scrape_g2 = scrape G2"

definition scrape_capterra :: "(string \<Rightarrow> datetime option) \<Rightarrow> session \<Rightarrow> string
    \<Rightarrow> datetime option \<Rightarrow> datetime option \<Rightarrow> (string list \<times> (exn + review list)) option" where
  "scrape_capterra = scrape Capterra"

definition scrape_trustradius :: "(string \<Rightarrow> datetime option) \<Rightarrow> session \<Rightarrow> string
    \<Rightarrow> datetime option \<Rightarrow> datetime option \<Rightarrow> (string list \<times> (exn + review list)) option" where
  "scrape_trustradius = scrape TrustRadius"

section \<open>main\<close>

text \<open>
  The parsed command line. Each pipeline opens a session of its own: \<open>sessions s\<close> is
  the session of source \<open>s\<close>. The result is the lines printed to the error stream and
  the list handed to \<open>json.dump\<close>; writing the file is not modelled.
\<close>

record args =
  arg_company :: string
  arg_start :: "string option"
  arg_end :: "string option"
  arg_source :: string
  arg_output :: string

definition parse_bound :: "(string \<Rightarrow> datetime option) \<Rightarrow> string option \<Rightarrow> datetime option" where
  "parse_bound fromisoformat a =
     (case a of
        None \<Rightarrow> None
      | Some s \<Rightarrow> if s \<noteq> [] then parse_date_try fromisoformat s else None)"

definition run_source :: "(string \<Rightarrow> datetime option) \<Rightarrow> (string \<Rightarrow> session) \<Rightarrow> string
    \<Rightarrow> datetime option \<Rightarrow> datetime option \<Rightarrow> string
    \<Rightarrow> (string list \<times> (exn + review list)) option" where
  "run_source fromisoformat sessions company start end s =
     (if s = ''g2'' then scrape_g2 fromisoformat (sessions s) company start end
      else if s = ''capterra'' then scrape_capterra fromisoformat (sessions s) company start end
      else if s = ''trustradius'' then scrape_trustradius fromisoformat (sessions s) company start end
      else Some ([], Inr []))"

text \<open>\<open>for s in sources\<close>, with \<open>all_reviews\<close> and the lines printed so far.\<close>

fun for_sources :: "(string \<Rightarrow> (string list \<times> (exn + review list)) option) \<Rightarrow> string list
    \<Rightarrow> review list \<Rightarrow> string list \<Rightarrow> (string list \<times> review list) option" where
  "for_sources run [] all_reviews log = Some (log, all_reviews)"
| "for_sources run (s # ss) all_reviews log =
     (case run s of
        None \<Rightarrow> None
      | Some (lines, Inr res) \<Rightarrow>
          for_sources run ss (all_reviews @ res)
            (log @ lines @ [''Found '' @ str_nat (length res) @ '' reviews from '' @ s])
      | Some (lines, Inl e) \<Rightarrow>
          for_sources run ss all_reviews
            (log @ lines @ [''Error scraping '' @ s @ '': '' @ exn_str e]))"

definition main :: "(string \<Rightarrow> datetime option) \<Rightarrow> (string \<Rightarrow> session) \<Rightarrow> args
    \<Rightarrow> (string list \<times> review list) option" where
  "main fromisoformat sessions a =
     (let start = parse_bound fromisoformat (arg_start a);
          end = parse_bound fromisoformat (arg_end a);
          sources = (if arg_source a = ''all'' then [''g2'', ''capterra'', ''trustradius'']
                     else [arg_source a])
      in case for_sources (run_source fromisoformat sessions (arg_company a) start end)
                sources [] [] of
           None \<Rightarrow> None
         | Some (log, all_reviews) \<Rightarrow>
             Some (log @ [''Wrote '' @ str_nat (length all_reviews) @ '' reviews to '' @ arg_output a],
                   all_reviews))"

section \<open>Notions the properties are stated with\<close>

text \<open>
  Two datetimes compare without an exception when both are naive or both are aware.
  \<open>dt_le\<close> is Python's \<open>a <= b\<close>, the order the range is stated in.
\<close>

definition comparable :: "datetime \<Rightarrow> datetime \<Rightarrow> bool" where
  "comparable a b = ((tzinfo a = None) = (tzinfo b = None))"

definition dt_le :: "datetime \<Rightarrow> datetime \<Rightarrow> exn + bool" where
  "dt_le a b =
     (if tzinfo a = tzinfo b then Inr (dt_tuple a \<le> dt_tuple b)
      else (case (tzinfo a, tzinfo b) of
              (Some myoff, Some otoff) \<Rightarrow> Inr (local_us a - myoff \<le> local_us b - otoff)
            | _ \<Rightarrow> Inl TypeError))"

text \<open>Values for the examples: a naive datetime at midnight, as the five formats give.\<close>

definition midnight :: "nat \<Rightarrow> nat \<Rightarrow> nat \<Rightarrow> datetime" where
  "midnight y m d = \<lparr>year = y, month = m, day = d, hour = 0, minute = 0, second = 0,
                      microsecond = 0, tzinfo = None\<rparr>"

text \<open>
  In the examples \<open>fromisoformat\<close> is only reached with the text \<open>garbage\<close>, which it
  rejects in every version; \<open>iso_reject\<close> stands for it there.
\<close>

definition iso_reject :: "string \<Rightarrow> datetime option" where
  "iso_reject s = None"

text \<open>
  \<open>fromisoformat\<close> on the one text 2023-05-01T10:00:00+00:00, which every version
  reads as that time at offset zero; the example gives it no other text.
\<close>

definition may_first_utc :: datetime where
  "may_first_utc = \<lparr>year = 2023, month = 5, day = 1, hour = 10, minute = 0, second = 0,
                     microsecond = 0, tzinfo = Some 0\<rparr>"

definition iso_with_offset :: "string \<Rightarrow> datetime option" where
  "iso_with_offset s = (if s = ''2023-05-01T10:00:00+00:00'' then Some may_first_utc else None)"

definition stamped_card :: card where
  "stamped_card =
     \<lparr>title_tag = Some ''t'', review_body_tag = None, p_tag = None,
      date_tag = Some \<lparr>datetime_attr = Some ''2023-05-01T10:00:00+00:00'',
                        elem_text = ''May 1, 2023''\<rparr>,
      rating_tag = None, reviewer_tag = None, strong_tag = None\<rparr>"

text \<open>A session whose every request fails in transport.\<close>

definition unreachable :: session where
  "unreachable n url = Inl (RequestException ''connection refused'')"

text \<open>
  An ISO-8601 calendar date, \<open>YYYY-MM-DD\<close>: ten characters, digits but for the two
  hyphens.
\<close>

definition is_calendar_date :: "string \<Rightarrow> bool" where
  "is_calendar_date s =
     (length s = 10 \<and> s ! 4 = CHR ''-'' \<and> s ! 7 = CHR ''-''
      \<and> list_all (\<lambda>i. s ! i \<in> set digits) [0, 1, 2, 3, 5, 6, 8, 9])"

text \<open>What a source adds to the output, and the line the aggregator prints for it.\<close>

definition contributed :: "exn + review list \<Rightarrow> review list" where
  "contributed outcome = (case outcome of Inl e \<Rightarrow> [] | Inr res \<Rightarrow> res)"

definition source_line :: "string \<Rightarrow> exn + review list \<Rightarrow> string" where
  "source_line s outcome =
     (case outcome of
        Inl e \<Rightarrow> ''Error scraping '' @ s @ '': '' @ exn_str e
      | Inr res \<Rightarrow> ''Found '' @ str_nat (length res) @ '' reviews from '' @ s)"

text \<open>
  Cards, pages and sessions for the examples: a card with a title and the text of its
  date element, a card without a date element, a page with status 200, and a session
  that serves the pages listed and 404 for any other URL.
\<close>

definition dated_card :: "string \<Rightarrow> string \<Rightarrow> card" where
  "dated_card heading date_text =
     \<lparr>title_tag = Some heading, review_body_tag = None, p_tag = Some ''Works well.'',
      date_tag = Some \<lparr>datetime_attr = None, elem_text = date_text\<rparr>,
      rating_tag = Some ''5'', reviewer_tag = None, strong_tag = Some ''Ann''\<rparr>"

definition undated_card :: "string \<Rightarrow> card" where
  "undated_card heading =
     \<lparr>title_tag = Some heading, review_body_tag = None, p_tag = None, date_tag = None,
      rating_tag = None, reviewer_tag = None, strong_tag = None\<rparr>"

definition ok_page :: "card list \<Rightarrow> response" where
  "ok_page cards = \<lparr>status_code = 200, link_href = None, select_first = cards,
                     select_alternate = []\<rparr>"

definition not_found :: response where
  "not_found = \<lparr>status_code = 404, link_href = None, select_first = [], select_alternate = []\<rparr>"

definition serve :: "(string \<times> response) list \<Rightarrow> session" where
  "serve pages n url = (case map_of pages url of Some r \<Rightarrow> Inr r | None \<Rightarrow> Inr not_found)"

text \<open>Page 1 holds a review of 2020, page 2 one of 2023.\<close>

definition old_then_new :: session where
  "old_then_new =
     serve [(''https://example.com/p/x/reviews?page=1'', ok_page [dated_card ''old'' ''2020-01-01'']),
            (''https://example.com/p/x/reviews?page=2'', ok_page [dated_card ''new'' ''2023-06-01''])]"

text \<open>One page with a review whose date text does not parse and one of 2020.\<close>

definition garbage_and_old :: session where
  "garbage_and_old =
     serve [(''https://example.com/p/x/reviews?page=1'',
             ok_page [dated_card ''a'' ''garbage'', dated_card ''b'' ''2020-01-01'',
                      undated_card ''c''])]"

text \<open>G2 cannot be reached, Capterra has three reviews, TrustRadius five.\<close>

definition three_sources :: "string \<Rightarrow> session" where
  "three_sources s =
     (if s = ''capterra''
      then serve [(''https://example.com/p/x/reviews?page=1'',
                   ok_page [undated_card ''c1'', undated_card ''c2'', undated_card ''c3''])]
      else if s = ''trustradius''
      then serve [(''https://example.com/p/x/reviews?page=1'',
                   ok_page [undated_card ''t1'', undated_card ''t2'', undated_card ''t3'',
                            undated_card ''t4'', undated_card ''t5''])]
      else unreachable)"

definition example_args :: args where
  "example_args = \<lparr>arg_company = ''https://example.com/p/x/reviews'', arg_start = None,
                    arg_end = None, arg_source = ''all'', arg_output = ''reviews_output.json''\<rparr>"

section \<open>Evaluation and auxiliary facts\<close>

lemmas str_defs = whitespace_def isspace_def strip_def rstrip_def startswith_def contains_def
  replace_def lower_char_def lower_def digits_def index_of_def int_of_str_def zfill_def
  str_nat.simps

lemma alternatives_names:
  "alternatives Dir_B =
     map (map (\<lambda>c. [c]))
       [''september'', ''february'', ''november'', ''december'', ''january'', ''october'',
        ''august'', ''march'', ''april'', ''june'', ''july'', ''may'']"
  "alternatives Dir_b =
     map (map (\<lambda>c. [c]))
       [''jan'', ''feb'', ''mar'', ''apr'', ''may'', ''jun'', ''jul'', ''aug'', ''sep'', ''oct'',
        ''nov'', ''dec'']"
  by (simp_all add: seqToRE_def f_month_def a_month_def)

lemmas dt_defs = is_leap_def days_in_month_def check_date_fields_def format_regex_def
  group_names_def f_month_def a_month_def alternatives.simps(1-3) alternatives_names
  match_group_def found_date_def strptime_def FORMATS_def parse_date_try_def midnight_def
  iso_reject_def

declare alternatives.simps [simp del]

lemma dt_lt_le: "comparable a b \<Longrightarrow> dt_lt a b = Inr (\<not> (dt_le b a = Inr True))"
  by (auto simp: comparable_def dt_lt_def dt_le_def not_le split: option.splits)

lemma dt_gt_le: "comparable a b \<Longrightarrow> dt_gt a b = Inr (\<not> (dt_le a b = Inr True))"
  by (auto simp: comparable_def dt_gt_def dt_lt_def dt_le_def not_le split: option.splits)

lemma rstrip_decompose: "\<exists>k. s = rstrip [c] s @ replicate k c"
proof -
  let ?P = "\<lambda>x. x \<in> set [c]"
  have "rev (takeWhile ?P (rev s) @ dropWhile ?P (rev s)) = s"
    by (simp only: takeWhile_dropWhile_id rev_rev_ident)
  then have split: "s = rstrip [c] s @ rev (takeWhile ?P (rev s))"
    by (simp only: rev_append rstrip_def)
  have "\<forall>y\<in>set (takeWhile ?P (rev s)). y = c"
    by (auto dest: set_takeWhileD)
  then have "takeWhile ?P (rev s) = replicate (length (takeWhile ?P (rev s))) c"
    by (simp add: replicate_length_same)
  then have "rev (takeWhile ?P (rev s)) = replicate (length (takeWhile ?P (rev s))) c"
    by (metis rev_replicate)
  with split show ?thesis by metis
qed

lemma rstrip_no_trailing: "\<not> suffix [c] (rstrip [c] s)"
proof
  assume "suffix [c] (rstrip [c] s)"
  then obtain p where "rstrip [c] s = p @ [c]" by (auto simp: suffix_def)
  then have "dropWhile (\<lambda>x. x \<in> set [c]) (rev s) = c # rev p"
    by (metis rev_rev_ident rev_append rev.simps(2) rev.simps(1) append_Nil rstrip_def)
  moreover have "dropWhile (\<lambda>x. x \<in> set [c]) (rev s) \<noteq> c # rev p"
    using hd_dropWhile[of "\<lambda>x. x \<in> set [c]" "rev s"]
    by (metis list.sel(1) list.set_intros(1) list.distinct(1))
  ultimately show False by simp
qed

lemma contains_char: "contains s [c] \<longleftrightarrow> c \<in> set s"
  by (induction s) (auto simp: contains_def sublist_Cons_right)

lemma main_cong:
  assumes "parse_bound fi (arg_start a) = parse_bound fi (arg_start b)"
    and "parse_bound fi (arg_end a) = parse_bound fi (arg_end b)"
    and "arg_source a = arg_source b" and "arg_company a = arg_company b"
    and "arg_output a = arg_output b"
  shows "main fi sessions a = main fi sessions b"
  by (simp only: main_def assms)

lemmas page_defs = dated_card_def undated_card_def ok_page_def not_found_def serve_def
  old_then_new_def garbage_and_old_def three_sources_def example_args_def unreachable_def
  scrape_def scrape_g2_def scrape_capterra_def scrape_trustradius_def product_url_of_def
  process_card_def date_obj_of_def date_text_of_def make_review_def text_or_empty_def
  or_else_def within_range_def dt_lt_def dt_gt_def dt_tuple_def isoformat_def
  isoformat_date_def isoformat_time_def format_offset_def Let_def sublist_code

lemmas run_defs = str_defs dt_defs page_defs paginate.simps

lemma for_items_result:
  "for_items body its reviews added = Inr (rs, a) \<Longrightarrow>
     \<exists>new. rs = reviews @ new \<and> a = added + length new
       \<and> set new = {r. \<exists>it\<in>set its. body it = Inr (Some r)}
       \<and> (\<forall>it\<in>set its. \<exists>res. body it = Inr res)"
proof (induction its arbitrary: reviews added)
  case Nil
  then show ?case by simp
next
  case (Cons it its)
  show ?case
  proof (cases "body it")
    case (Inl e)
    with Cons.prems show ?thesis by simp
  next
    case (Inr o1)
    show ?thesis
    proof (cases o1)
      case None
      with Inr Cons.prems have "for_items body its reviews added = Inr (rs, a)" by simp
      from Cons.IH[OF this] None Inr show ?thesis by auto
    next
      case (Some r)
      with Inr Cons.prems have "for_items body its (reviews @ [r]) (added + 1) = Inr (rs, a)" by simp
      from Cons.IH[OF this] obtain new where
        n: "rs = (reviews @ [r]) @ new" "a = added + 1 + length new"
           "set new = {r. \<exists>it\<in>set its. body it = Inr (Some r)}"
           "\<forall>it\<in>set its. \<exists>res. body it = Inr res" by blast
      have "rs = reviews @ (r # new)" using n(1) by simp
      moreover have "a = added + length (r # new)" using n(2) by simp
      moreover have "set (r # new) = {r. \<exists>it\<in>set (it # its). body it = Inr (Some r)}"
        using n(3) Some Inr by auto
      moreover have "\<forall>x\<in>set (it # its). \<exists>res. body x = Inr res"
        using n(4) Inr by auto
      ultimately show ?thesis by blast
    qed
  qed
qed

lemma for_items_none_added:
  assumes "for_items body its reviews 0 = Inr (rs, a)"
  shows "a = 0 \<longleftrightarrow> (\<forall>it\<in>set its. body it = Inr None)"
proof -
  from for_items_result[OF assms] obtain new where
    n: "a = 0 + length new" "set new = {r. \<exists>it\<in>set its. body it = Inr (Some r)}"
       "\<forall>it\<in>set its. \<exists>res. body it = Inr res" by blast
  have "a = 0 \<longleftrightarrow> set new = {}" using n(1) by simp
  also have "\<dots> \<longleftrightarrow> (\<forall>it\<in>set its. \<forall>r. body it \<noteq> Inr (Some r))"
    using n(2) by auto
  also have "\<dots> \<longleftrightarrow> (\<forall>it\<in>set its. body it = Inr None)"
  proof
    assume h: "\<forall>it\<in>set its. \<forall>r. body it \<noteq> Inr (Some r)"
    show "\<forall>it\<in>set its. body it = Inr None"
    proof
      fix it assume "it \<in> set its"
      with n(3) h obtain res where "body it = Inr res" "\<forall>r. body it \<noteq> Inr (Some r)" by blast
      then show "body it = Inr None" by (cases res) auto
    qed
  next
    assume "\<forall>it\<in>set its. body it = Inr None"
    then show "\<forall>it\<in>set its. \<forall>r. body it \<noteq> Inr (Some r)" by simp
  qed
  finally show ?thesis .
qed

lemma process_card_dropped:
  "process_card st fi start end it = Inr None \<longleftrightarrow>
     (\<exists>d. date_obj_of fi it = Some d \<and> within_range d start end = Inr False)"
  by (auto simp: process_card_def split: option.splits sum.splits bool.splits)

lemma process_card_kept:
  "process_card st fi start end it = Inr (Some r) \<Longrightarrow> r = make_review st it (date_obj_of fi it)"
  by (auto simp: process_card_def split: option.splits sum.splits bool.splits)

lemma process_card_source:
  "process_card st fi start end it = Inr (Some r) \<Longrightarrow> source r = source_tag st"
  by (drule process_card_kept) (simp add: make_review_def)

lemma paginate_inv:
  assumes major: "paginate st fi session start end product_url n page reviews log = Some y"
  shows "I reviews \<Longrightarrow>
   (\<forall>rs new. I rs \<longrightarrow> (\<forall>r\<in>set new. \<exists>it. process_card st fi start end it = Inr (Some r))
      \<longrightarrow> I (rs @ new)) \<Longrightarrow>
   (\<forall>out. snd y = Inr out \<longrightarrow> I out)"
proof (induction st fi session start "end" product_url n page reviews log y rule: paginate.raw_induct)
  case (1 pag st fi session start "end" product_url n page reviews log y)
  let ?log = "log @ [''Fetching '' @ page_url_of st product_url page]"
  show ?case
  proof (cases "session n (page_url_of st product_url page)")
    case (Inl e)
    with "1.hyps" show ?thesis by (auto simp: Let_def)
  next
    case fetched: (Inr resp)
    show ?thesis
    proof (cases "status_code resp \<noteq> 200 \<or> select_items st resp = []")
      case True
      with fetched "1.hyps" "1.prems"(1) show ?thesis by (auto simp: Let_def split: if_splits)
    next
      case False
      show ?thesis
      proof (cases "for_items (process_card st fi start end) (select_items st resp) reviews 0")
        case (Inl e)
        with False fetched "1.hyps" show ?thesis by (auto simp: Let_def)
      next
        case (Inr res)
        obtain reviews' added where res: "res = (reviews', added)" by (cases res)
        from for_items_result[OF Inr[unfolded res]] obtain new where
          new: "reviews' = reviews @ new"
               "set new = {r. \<exists>it\<in>set (select_items st resp). process_card st fi start end it = Inr (Some r)}"
          by blast
        have "\<forall>r\<in>set new. \<exists>it. process_card st fi start end it = Inr (Some r)"
          using new(2) by auto
        with "1.prems"(1,2) new(1) have inv: "I reviews'" by blast
        show ?thesis
        proof (cases "added = 0")
          case True
          with False fetched Inr res "1.hyps" inv
          show ?thesis by (auto simp: Let_def)
        next
          case nz: False
          with False fetched Inr res "1.hyps"
          have a: "pag st fi session start end product_url (n + 1) (page + 1) reviews' ?log = Some y"
            by (auto simp: Let_def)
          from "1.IH"[OF a inv "1.prems"(2)] show ?thesis .
        qed
      qed
    qed
  qed
qed (rule major)

lemma paginate_all:
  assumes "paginate st fi session start end product_url n page reviews log = Some (log', Inr out)"
    and "\<forall>r\<in>set reviews. P r"
    and "\<And>it r. process_card st fi start end it = Inr (Some r) \<Longrightarrow> P r"
  shows "\<forall>r\<in>set out. P r"
proof -
  have "\<forall>rs new. (\<forall>r\<in>set rs. P r) \<longrightarrow>
      (\<forall>r\<in>set new. \<exists>it. process_card st fi start end it = Inr (Some r)) \<longrightarrow>
      (\<forall>r\<in>set (rs @ new). P r)"
    using assms(3) by auto
  from paginate_inv[where I = "\<lambda>rs. \<forall>r\<in>set rs. P r", OF assms(1,2) this]
  show ?thesis by simp
qed

lemma paginate_prefix:
  assumes "paginate st fi session start end product_url n page reviews log = Some (log', Inr out)"
  shows "prefix reviews out"
proof -
  have "\<forall>rs new. prefix reviews rs \<longrightarrow>
      (\<forall>r\<in>set new. \<exists>it. process_card st fi start end it = Inr (Some r)) \<longrightarrow>
      prefix reviews (rs @ new)"
    by auto
  from paginate_inv[where I = "prefix reviews", OF assms _ this]
  show ?thesis by simp
qed

lemma scrape_all:
  assumes "scrape st fi session company start end = Some (log, Inr out)"
    and "\<And>it r. process_card st fi start end it = Inr (Some r) \<Longrightarrow> P r"
  shows "\<forall>r\<in>set out. P r"
proof (cases "product_url_of st session company")
  case (Inl e)
  with assms(1) show ?thesis by (simp add: scrape_def)
next
  case (Inr nu)
  obtain n url where "nu = (n, url)" by (cases nu)
  with Inr assms(1) have "paginate st fi session start end url n 1 [] [] = Some (log, Inr out)"
    by (simp add: scrape_def)
  from paginate_all[OF this _ assms(2)] show ?thesis by simp
qed

lemma str_nat_digits: "set (str_nat n) \<subseteq> set digits"
proof (induction n rule: str_nat.induct)
  case (1 n)
  have d: "digits ! k \<in> set digits" if "k < 10" for k
    using that by (intro nth_mem) (simp add: digits_def)
  show ?case
  proof (cases "n < 10")
    case True
    then show ?thesis using d by (subst str_nat.simps) simp
  next
    case False
    with 1 have "set (str_nat (n div 10)) \<subseteq> set digits" by simp
    moreover have "digits ! (n mod 10) \<in> set digits" by (rule d) simp
    ultimately show ?thesis using False by (subst str_nat.simps) simp
  qed
qed

lemma length_str_nat: "n < 10 ^ k \<Longrightarrow> 0 < k \<Longrightarrow> length (str_nat n) \<le> k"
proof (induction k arbitrary: n)
  case 0
  then show ?case by simp
next
  case (Suc k)
  show ?case
  proof (cases "n < 10")
    case True
    then show ?thesis by (subst str_nat.simps) simp
  next
    case False
    with Suc.prems have k: "0 < k" by (cases k) auto
    from Suc.prems have "n div 10 < 10 ^ k" by (simp add: less_mult_imp_div_less mult.commute)
    from Suc.IH[OF this k] False show ?thesis by (subst str_nat.simps) simp
  qed
qed

lemma zfill_length: "n < 10 ^ w \<Longrightarrow> 0 < w \<Longrightarrow> length (zfill w n) = w"
  using length_str_nat[of n w] by (simp add: zfill_def)

lemma zfill_digits: "set (zfill w n) \<subseteq> set digits"
  using str_nat_digits[of n] by (auto simp: zfill_def digits_def)

lemma calendar_dateI:
  assumes "length a = 4" "length b = 2" "length c = 2"
    and "set a \<subseteq> set digits" "set b \<subseteq> set digits" "set c \<subseteq> set digits"
  shows "is_calendar_date (a @ ''-'' @ b @ ''-'' @ c)"
proof -
  have a: "a ! i \<in> set digits" if "i < 4" for i using assms(1,4) that by (metis nth_mem subsetD)
  have b: "b ! i \<in> set digits" if "i < 2" for i using assms(2,5) that by (metis nth_mem subsetD)
  have c: "c ! i \<in> set digits" if "i < 2" for i using assms(3,6) that by (metis nth_mem subsetD)
  show ?thesis
    using assms(1-3) a[of 0] a[of 1] a[of 2] a[of 3] b[of 0] b[of 1] c[of 0] c[of 1]
    by (simp add: is_calendar_date_def nth_append nth_Cons')
qed

lemma isoformat_date_calendar:
  assumes "check_date_fields y m d"
  shows "is_calendar_date (isoformat_date (midnight y m d))"
proof -
  from assms have y: "y < 10 ^ 4" and m: "m < 10 ^ 2"
    by (simp_all add: check_date_fields_def)
  from assms have "d \<le> days_in_month y m" "m \<le> 12" by (simp_all add: check_date_fields_def)
  then have "d \<le> 31"
    by (cases "m = 2 \<and> is_leap y")
       (auto simp: days_in_month_def nth_Cons' split: if_splits)
  then have d: "d < 10 ^ 2" by simp
  have "is_calendar_date (zfill 4 y @ ''-'' @ zfill 2 m @ ''-'' @ zfill 2 d)"
    by (rule calendar_dateI)
       (simp_all add: zfill_length[OF y] zfill_length[OF m] zfill_length[OF d] zfill_digits)
  then show ?thesis
    by (simp add: isoformat_date_def midnight_def del: append.simps)
qed

lemma found_date_midnight:
  "found_date found = Some d \<Longrightarrow> \<exists>y m dd. d = midnight y m dd \<and> check_date_fields y m dd"
  by (auto simp: found_date_def midnight_def Let_def split: prod.splits if_splits)

lemma strptime_midnight:
  "strptime s fmt = Some d \<Longrightarrow> \<exists>y m dd. d = midnight y m dd \<and> check_date_fields y m dd"
  by (auto simp: strptime_def split: option.splits list.splits if_splits
           dest: found_date_midnight)

lemma try_formats_midnight:
  "try_formats s fmts = Some d \<Longrightarrow> \<exists>y m dd. d = midnight y m dd \<and> check_date_fields y m dd"
  by (induction fmts) (auto split: option.splits dest: strptime_midnight)

lemma isoformat_time_midnight: "isoformat_time (midnight y m d) = ''00:00:00''"
  by (simp add: isoformat_time_def midnight_def format_offset_def str_defs)

lemma for_sources_all:
  assumes "\<forall>s\<in>set ss. run s = Some (lines s, outcome s)"
  shows "for_sources run ss all_reviews log =
           Some (log @ concat (map (\<lambda>s. lines s @ [source_line s (outcome s)]) ss),
                 all_reviews @ concat (map (\<lambda>s. contributed (outcome s)) ss))"
  using assms
proof (induction ss arbitrary: all_reviews log)
  case Nil
  then show ?case by simp
next
  case (Cons s ss)
  from Cons.prems have s: "run s = Some (lines s, outcome s)"
    and rest: "\<forall>s\<in>set ss. run s = Some (lines s, outcome s)" by simp_all
  show ?case
  proof (cases "outcome s")
    case (Inl e)
    with s Cons.IH[OF rest] show ?thesis
      by (simp add: source_line_def contributed_def)
  next
    case (Inr res)
    with s Cons.IH[OF rest] show ?thesis
      by (simp add: source_line_def contributed_def)
  qed
qed

section \<open>The page URL\<close>

text \<open>
  C3, as the code has it. The G2 and Capterra pipelines append \<open>?page=N\<close> to a listing
  URL without a \<open>?\<close> and \<open>&page=N\<close> to one with a \<open>?\<close>. The TrustRadius pipeline
  tests for \<open>/reviews\<close> instead: to a listing URL without a query string it appends
  \<open>?page=N\<close> when the URL contains \<open>/reviews\<close> and \<open>/reviews?page=N\<close> when it does
  not. \<open>N\<close> is the page number in decimal.
\<close>

theorem page_url_rule:
  "(st = G2 \<or> st = Capterra \<longrightarrow>
      page_url_of st product_url page
        = product_url @ (if CHR ''?'' \<in> set product_url then ''&page='' else ''?page='')
            @ str_nat page)
   \<and> (CHR ''?'' \<notin> set product_url \<longrightarrow>
      page_url_of TrustRadius product_url page
        = product_url @ (if contains product_url ''/reviews'' then ''?page='' else ''/reviews?page='')
            @ str_nat page)"
  by (auto simp: contains_char)

theorem page_url_rule_witness:
  "page_url_of G2 ''https://www.g2.com/products/zoom/reviews'' 12
     = ''https://www.g2.com/products/zoom/reviews?page=12''
   \<and> page_url_of Capterra ''https://www.capterra.com/p/zoom/?sort=new'' 3
     = ''https://www.capterra.com/p/zoom/?sort=new&page=3''
   \<and> page_url_of TrustRadius ''https://www.trustradius.com/products/zoom/reviews'' 2
     = ''https://www.trustradius.com/products/zoom/reviews?page=2''
   \<and> page_url_of TrustRadius ''https://example.com/p/zoom'' 1
     = ''https://example.com/p/zoom/reviews?page=1''"
  using page_url_rule[of G2 "''https://www.g2.com/products/zoom/reviews''" 12]
    page_url_rule[of Capterra "''https://www.capterra.com/p/zoom/?sort=new''" 3]
    page_url_rule[of TrustRadius "''https://www.trustradius.com/products/zoom/reviews''" 2]
    page_url_rule[of TrustRadius "''https://example.com/p/zoom''" 1]
  by (simp add: str_defs sublist_code)

text \<open>
  C3 as stated fails for TrustRadius: a listing URL with neither \<open>?\<close> nor \<open>/reviews\<close>
  gets \<open>/reviews?page=1\<close>, not \<open>?page=1\<close>, and one that has a query string gets
  \<open>?page=1\<close>, not \<open>&page=1\<close>.
\<close>

theorem page_url_trustradius_counterexample:
  "page_url_of TrustRadius ''https://example.com/p/zoom'' 1
     = ''https://example.com/p/zoom/reviews?page=1''
   \<and> page_url_of TrustRadius ''https://example.com/p/zoom'' 1
     \<noteq> ''https://example.com/p/zoom'' @ ''?page=1''
   \<and> page_url_of TrustRadius ''https://example.com/reviews?sort=new'' 1
     = ''https://example.com/reviews?sort=new?page=1''
   \<and> page_url_of TrustRadius ''https://example.com/reviews?sort=new'' 1
     \<noteq> ''https://example.com/reviews?sort=new'' @ ''&page=1''"
  by (simp add: str_defs sublist_code)

section \<open>The range check\<close>

text \<open>
  C4, as the code has it. When the date and every bound given are comparable (all
  naive, or all aware), \<open>within_range\<close> returns true exactly if \<open>start <= d\<close> and
  \<open>d <= end\<close>, a bound that is \<open>None\<close> imposing nothing; in particular it is true for
  every date when both bounds are \<open>None\<close>.
\<close>

theorem within_range_inclusive:
  assumes "\<forall>s. start = Some s \<longrightarrow> comparable date_obj s"
    and "\<forall>e. end = Some e \<longrightarrow> comparable date_obj e"
  shows "within_range date_obj start end =
           Inr ((\<forall>s. start = Some s \<longrightarrow> dt_le s date_obj = Inr True)
              \<and> (\<forall>e. end = Some e \<longrightarrow> dt_le date_obj e = Inr True))
         \<and> within_range date_obj None None = Inr True"
proof
  show "within_range date_obj start end =
           Inr ((\<forall>s. start = Some s \<longrightarrow> dt_le s date_obj = Inr True)
              \<and> (\<forall>e. end = Some e \<longrightarrow> dt_le date_obj e = Inr True))"
    using assms
    by (cases start; cases "end")
       (auto simp: within_range_def dt_lt_le dt_gt_le split: bool.splits)
  show "within_range date_obj None None = Inr True"
    by (simp add: within_range_def)
qed

theorem within_range_inclusive_witness:
  "within_range (midnight 2023 6 15) (Some (midnight 2023 1 1)) (Some (midnight 2023 12 31)) = Inr True
   \<and> within_range (midnight 2023 1 1) (Some (midnight 2023 1 1)) (Some (midnight 2023 12 31)) = Inr True
   \<and> within_range (midnight 2023 12 31) (Some (midnight 2023 1 1)) (Some (midnight 2023 12 31)) = Inr True
   \<and> within_range (midnight 2022 12 31) (Some (midnight 2023 1 1)) (Some (midnight 2023 12 31)) = Inr False
   \<and> within_range (midnight 2024 1 1) (Some (midnight 2023 1 1)) None = Inr True
   \<and> within_range (midnight 2024 1 1) None (Some (midnight 2023 12 31)) = Inr False
   \<and> within_range
        \<lparr>year = 2023, month = 5, day = 1, hour = 10, minute = 0, second = 0, microsecond = 0,
           tzinfo = Some 0\<rparr>
        (Some \<lparr>year = 2023, month = 5, day = 1, hour = 11, minute = 0, second = 0,
                 microsecond = 0, tzinfo = Some 7200000000\<rparr>)
        None = Inr True"
  using within_range_inclusive[of "Some (midnight 2023 1 1)" "midnight 2023 6 15" "Some (midnight 2023 12 31)"]
    within_range_inclusive[of "Some (midnight 2023 1 1)" "midnight 2023 1 1" "Some (midnight 2023 12 31)"]
    within_range_inclusive[of "Some (midnight 2023 1 1)" "midnight 2023 12 31" "Some (midnight 2023 12 31)"]
    within_range_inclusive[of "Some (midnight 2023 1 1)" "midnight 2022 12 31" "Some (midnight 2023 12 31)"]
    within_range_inclusive[of "Some (midnight 2023 1 1)" "midnight 2024 1 1" "None"]
    within_range_inclusive[of "None" "midnight 2024 1 1" "Some (midnight 2023 12 31)"]
    within_range_inclusive[of
      "Some \<lparr>year = 2023, month = 5, day = 1, hour = 11, minute = 0, second = 0,
               microsecond = 0, tzinfo = Some 7200000000\<rparr>"
      "\<lparr>year = 2023, month = 5, day = 1, hour = 10, minute = 0, second = 0, microsecond = 0,
         tzinfo = Some 0\<rparr>"
      "None"]
  by (simp add: comparable_def dt_le_def dt_tuple_def midnight_def local_us_def toordinal_def
        days_before_year_def days_before_month_def is_leap_def)

text \<open>
  C4 as stated fails where an aware date meets a naive bound: the date
  2023-05-01T10:00:00+00:00 against the start 2023-01-01 raises TypeError, so the
  check returns neither true nor false. The pipeline meets the pair when \<open>--start\<close> is
  2023-01-01 and a card's date element carries that text in its \<open>datetime\<close> attribute.
\<close>

theorem within_range_mixed_counterexample:
  "within_range may_first_utc (Some (midnight 2023 1 1)) None = Inl TypeError
   \<and> parse_date_try iso_with_offset ''2023-05-01T10:00:00+00:00'' = Some may_first_utc
   \<and> parse_bound iso_with_offset (Some ''2023-01-01'') = Some (midnight 2023 1 1)
   \<and> process_card G2 iso_with_offset (Some (midnight 2023 1 1)) None stamped_card = Inl TypeError"
  by (simp add: str_defs dt_defs page_defs parse_bound_def may_first_utc_def iso_with_offset_def
        stamped_card_def)

section \<open>Parsing a date\<close>

text \<open>
  C5: \<open>parse_date_try\<close> returns what the first of the five formats that parses the
  stripped text gives, in the order ISO \<open>YYYY-MM-DD\<close>, \<open>DD-MM-YYYY\<close>, \<open>DD Month YYYY\<close>,
  \<open>Month DD, YYYY\<close>, \<open>Mon DD, YYYY\<close>; when none parses, what \<open>fromisoformat\<close> gives for
  the text, which is \<open>None\<close> when that fails too.
\<close>

theorem parse_date_try_first_format:
  "parse_date_try fromisoformat dt_str =
     (case List.find (\<lambda>fmt. strptime (strip dt_str) fmt \<noteq> None)
             [''%Y-%m-%d'', ''%d-%m-%Y'', ''%d %B %Y'', ''%B %d, %Y'', ''%b %d, %Y''] of
        Some fmt \<Rightarrow> strptime (strip dt_str) fmt
      | None \<Rightarrow> fromisoformat dt_str)"
  by (auto simp: parse_date_try_def FORMATS_def split: option.splits)

theorem parse_date_try_first_format_witness:
  "parse_date_try iso_reject ''2023-01-05'' = Some (midnight 2023 1 5)
   \<and> parse_date_try iso_reject ''05-01-2023'' = Some (midnight 2023 1 5)
   \<and> parse_date_try iso_reject ''5 January 2023'' = Some (midnight 2023 1 5)
   \<and> parse_date_try iso_reject ''January 5, 2023'' = Some (midnight 2023 1 5)
   \<and> parse_date_try iso_reject ''Jan 5, 2023'' = Some (midnight 2023 1 5)
   \<and> parse_date_try iso_reject ''garbage'' = None"
  using parse_date_try_first_format[of iso_reject "''2023-01-05''"]
    parse_date_try_first_format[of iso_reject "''05-01-2023''"]
    parse_date_try_first_format[of iso_reject "''5 January 2023''"]
    parse_date_try_first_format[of iso_reject "''January 5, 2023''"]
    parse_date_try_first_format[of iso_reject "''Jan 5, 2023''"]
    parse_date_try_first_format[of iso_reject "''garbage''"]
  by (simp add: str_defs dt_defs)

section \<open>A product URL given directly\<close>

text \<open>
  C8: when the company text starts with \<open>http\<close>, every pipeline takes it as the product
  URL with the trailing slashes removed and nothing else changed, and the session has
  served no request at that point, whatever the session is.
\<close>

theorem product_url_direct:
  assumes "startswith company ''http''"
  shows "product_url_of st session company = Inr (0, rstrip ''/'' company)
         \<and> (\<exists>k. company = rstrip ''/'' company @ replicate k CHR ''/'')
         \<and> \<not> suffix ''/'' (rstrip ''/'' company)"
  using assms rstrip_decompose[of company "CHR ''/''"] rstrip_no_trailing[of "CHR ''/''" company]
  by (simp add: product_url_of_def)

theorem product_url_direct_witness:
  "startswith ''https://example.com/p/x/reviews/'' ''http''
   \<and> product_url_of G2 unreachable ''https://example.com/p/x/reviews/''
       = Inr (0, ''https://example.com/p/x/reviews'')
   \<and> product_url_of TrustRadius unreachable ''https://example.com/p/x/reviews/''
       = Inr (0, ''https://example.com/p/x/reviews'')
   \<and> rstrip ''/'' ''https://example.com/p/x/reviews/'' = ''https://example.com/p/x/reviews''"
  using product_url_direct[of "''https://example.com/p/x/reviews/''" G2 unreachable]
    product_url_direct[of "''https://example.com/p/x/reviews/''" TrustRadius unreachable]
  by (simp add: startswith_def rstrip_def)

section \<open>When the page loop stops\<close>

text \<open>
  C1, as the code has it. At a page that is fetched with status 200 and has cards, and
  whose cards raise no exception, the counter \<open>added\<close> is the number of records the
  page appended: a card whose parsed date is outside the range is skipped before it is
  counted. The loop ends at that page exactly when \<open>added\<close> is zero, that is when every
  card of the page has a parsed date outside the range; otherwise it goes on to the
  next page.
\<close>

theorem paginate_stops_without_retained:
  assumes "session n (page_url_of st product_url page) = Inr r"
    and "status_code r = 200"
    and "select_items st r \<noteq> []"
    and "for_items (process_card st fi start end) (select_items st r) reviews 0 = Inr (reviews', added)"
  shows "(added = 0 \<longleftrightarrow>
            (\<forall>it\<in>set (select_items st r).
               \<exists>d. date_obj_of fi it = Some d \<and> within_range d start end = Inr False))
         \<and> added = length reviews' - length reviews
         \<and> paginate st fi session start end product_url n page reviews log =
             (if added = 0
              then Some (log @ [''Fetching '' @ page_url_of st product_url page], Inr reviews)
              else paginate st fi session start end product_url (n + 1) (page + 1) reviews'
                     (log @ [''Fetching '' @ page_url_of st product_url page]))"
proof -
  from for_items_result[OF assms(4)] obtain new where
    new: "reviews' = reviews @ new" "added = 0 + length new" by blast
  have a: "added = 0 \<longleftrightarrow>
            (\<forall>it\<in>set (select_items st r).
               \<exists>d. date_obj_of fi it = Some d \<and> within_range d start end = Inr False)"
    using for_items_none_added[OF assms(4)] by (simp add: process_card_dropped)
  have b: "added = length reviews' - length reviews" using new by simp
  have c: "added = 0 \<Longrightarrow> reviews' = reviews" using new by simp
  have "paginate st fi session start end product_url n page reviews log =
             (if added = 0
              then Some (log @ [''Fetching '' @ page_url_of st product_url page], Inr reviews)
              else paginate st fi session start end product_url (n + 1) (page + 1) reviews'
                     (log @ [''Fetching '' @ page_url_of st product_url page]))"
    using assms c
    by (subst paginate.simps) (simp add: Let_def)
  with a b show ?thesis by blast
qed

theorem paginate_stops_without_retained_witness:
  "old_then_new 0 (page_url_of G2 ''https://example.com/p/x/reviews'' 1)
     = Inr (ok_page [dated_card ''old'' ''2020-01-01''])
   \<and> for_items (process_card G2 iso_reject (Some (midnight 2023 1 1)) None)
        [dated_card ''old'' ''2020-01-01''] [] 0 = Inr ([], 0)
   \<and> paginate G2 iso_reject old_then_new (Some (midnight 2023 1 1)) None
        ''https://example.com/p/x/reviews'' 0 1 [] []
      = Some ([''Fetching https://example.com/p/x/reviews?page=1''], Inr [])"
proof -
  have f: "old_then_new 0 (page_url_of G2 ''https://example.com/p/x/reviews'' 1)
     = Inr (ok_page [dated_card ''old'' ''2020-01-01''])"
    by (simp add: str_defs page_defs)
  have s: "status_code (ok_page [dated_card ''old'' ''2020-01-01'']) = 200"
    by (simp add: ok_page_def)
  have i: "select_items G2 (ok_page [dated_card ''old'' ''2020-01-01''])
      = [dated_card ''old'' ''2020-01-01'']"
    by (simp add: ok_page_def)
  have l: "for_items (process_card G2 iso_reject (Some (midnight 2023 1 1)) None)
        (select_items G2 (ok_page [dated_card ''old'' ''2020-01-01''])) [] 0 = Inr ([], 0)"
    by (simp add: str_defs dt_defs page_defs)
  have ne: "select_items G2 (ok_page [dated_card ''old'' ''2020-01-01'']) \<noteq> []"
    by (simp add: ok_page_def)
  from paginate_stops_without_retained[where session = old_then_new and n = 0 and st = G2
      and product_url = "''https://example.com/p/x/reviews''" and page = 1 and log = "[]",
      OF f s ne l] f l
  show ?thesis by (simp add: str_defs page_defs)
qed

text \<open>
  C1 as stated fails: with the start 2023-01-01, page 1 holding one review of 2020 and
  page 2 one of 2023, each pipeline fetches page 1 only and returns no record, although
  page 2 is there and its review is in range.
\<close>

theorem stops_on_out_of_range_page_counterexample:
  "scrape_g2 iso_reject old_then_new ''https://example.com/p/x/reviews''
       (Some (midnight 2023 1 1)) None
     = Some ([''Fetching https://example.com/p/x/reviews?page=1''], Inr [])
   \<and> scrape_capterra iso_reject old_then_new ''https://example.com/p/x/reviews''
       (Some (midnight 2023 1 1)) None
     = Some ([''Fetching https://example.com/p/x/reviews?page=1''], Inr [])
   \<and> scrape_trustradius iso_reject old_then_new ''https://example.com/p/x/reviews''
       (Some (midnight 2023 1 1)) None
     = Some ([''Fetching https://example.com/p/x/reviews?page=1''], Inr [])
   \<and> old_then_new 1 ''https://example.com/p/x/reviews?page=2''
     = Inr (ok_page [dated_card ''new'' ''2023-06-01''])
   \<and> process_card G2 iso_reject (Some (midnight 2023 1 1)) None (dated_card ''new'' ''2023-06-01'')
     = Inr (Some (make_review G2 (dated_card ''new'' ''2023-06-01'') (Some (midnight 2023 6 1))))"
  by (simp add: run_defs)

section \<open>Records without a parsed date\<close>

text \<open>
  C2: a card without a date element, or whose date text does not parse, has no date
  object, and such a card is appended whatever the bounds are; a card is skipped
  exactly when its date parsed and the range check returned false; and the record of a
  card without a date object, on a page the loop fetched with status 200, is in the
  list the pipeline returns.
\<close>

theorem unparsed_date_kept:
  "(date_tag it = None \<longrightarrow> date_obj_of fi it = None)
   \<and> (date_obj_of fi it = None \<longrightarrow>
        process_card st fi start end it = Inr (Some (make_review st it None)))
   \<and> (process_card st fi start end it = Inr None \<longleftrightarrow>
        (\<exists>d. date_obj_of fi it = Some d \<and> within_range d start end = Inr False))
   \<and> (session n (page_url_of st product_url page) = Inr r \<and> status_code r = 200
        \<and> it \<in> set (select_items st r) \<and> date_obj_of fi it = None
        \<and> paginate st fi session start end product_url n page reviews log = Some (log', Inr out)
      \<longrightarrow> make_review st it None \<in> set out)"
proof (intro conjI impI)
  show "date_obj_of fi it = None" if "date_tag it = None"
    using that by (simp add: date_obj_of_def date_text_of_def)
  show "process_card st fi start end it = Inr (Some (make_review st it None))"
    if "date_obj_of fi it = None"
    using that by (simp add: process_card_def)
  show "process_card st fi start end it = Inr None \<longleftrightarrow>
        (\<exists>d. date_obj_of fi it = Some d \<and> within_range d start end = Inr False)"
    by (rule process_card_dropped)
  show "make_review st it None \<in> set out"
    if h: "session n (page_url_of st product_url page) = Inr r \<and> status_code r = 200
        \<and> it \<in> set (select_items st r) \<and> date_obj_of fi it = None
        \<and> paginate st fi session start end product_url n page reviews log = Some (log', Inr out)"
  proof -
    let ?log = "log @ [''Fetching '' @ page_url_of st product_url page]"
    from h have h1: "session n (page_url_of st product_url page) = Inr r"
      and h2: "status_code r = 200" and h3: "it \<in> set (select_items st r)"
      and h4: "date_obj_of fi it = None"
      and h5: "paginate st fi session start end product_url n page reviews log = Some (log', Inr out)"
      by simp_all
    from h3 have ne: "select_items st r \<noteq> []" by auto
    from h4 have kept: "process_card st fi start end it = Inr (Some (make_review st it None))"
      by (simp add: process_card_def)
    have "paginate st fi session start end product_url n page reviews log =
          (case for_items (process_card st fi start end) (select_items st r) reviews 0 of
                  Inl e \<Rightarrow> Some (?log, Inl e)
                | Inr (reviews', added) \<Rightarrow>
                    if added = 0 then Some (?log, Inr reviews')
                    else paginate st fi session start end product_url (n + 1) (page + 1) reviews' ?log)"
      by (subst paginate.simps) (auto simp: Let_def h1 h2 ne split: sum.splits)
    with h5 have unf: "(case for_items (process_card st fi start end) (select_items st r) reviews 0 of
                  Inl e \<Rightarrow> Some (?log, Inl e)
                | Inr (reviews', added) \<Rightarrow>
                    if added = 0 then Some (?log, Inr reviews')
                    else paginate st fi session start end product_url (n + 1) (page + 1) reviews' ?log)
          = Some (log', Inr out)"
      by simp
    then obtain reviews' added where
      fi: "for_items (process_card st fi start end) (select_items st r) reviews 0 = Inr (reviews', added)"
      by (cases "for_items (process_card st fi start end) (select_items st r) reviews 0") auto
    from for_items_result[OF fi] obtain new where
      new: "reviews' = reviews @ new"
           "set new = {x. \<exists>it\<in>set (select_items st r). process_card st fi start end it = Inr (Some x)}"
      by blast
    from new(2) kept h3 have "make_review st it None \<in> set new" by auto
    with new(1) have mem: "make_review st it None \<in> set reviews'" by simp
    show ?thesis
    proof (cases "added = 0")
      case True
      with unf fi have "out = reviews'" by simp
      with mem show ?thesis by simp
    next
      case False
      with unf fi have "paginate st fi session start end product_url (n + 1) (page + 1) reviews' ?log
          = Some (log', Inr out)" by simp
      from paginate_prefix[OF this] mem show ?thesis
        by (auto simp: prefix_def)
    qed
  qed
qed

theorem unparsed_date_kept_witness:
  "date_obj_of iso_reject (dated_card ''a'' ''garbage'') = None
   \<and> process_card G2 iso_reject (Some (midnight 2023 1 1)) None (dated_card ''a'' ''garbage'')
       = Inr (Some (make_review G2 (dated_card ''a'' ''garbage'') None))
   \<and> date (make_review G2 (dated_card ''a'' ''garbage'') None) = ''garbage''
   \<and> process_card G2 iso_reject (Some (midnight 2023 1 1)) None (dated_card ''b'' ''2020-01-01'')
       = Inr None
   \<and> paginate G2 iso_reject garbage_and_old (Some (midnight 2023 1 1)) None
        ''https://example.com/p/x/reviews'' 0 1 [] []
       = Some ([''Fetching https://example.com/p/x/reviews?page=1'',
                ''Fetching https://example.com/p/x/reviews?page=2''],
               Inr [make_review G2 (dated_card ''a'' ''garbage'') None,
                    make_review G2 (undated_card ''c'') None])
   \<and> make_review G2 (dated_card ''a'' ''garbage'') None
       \<in> set [make_review G2 (dated_card ''a'' ''garbage'') None,
               make_review G2 (undated_card ''c'') None]"
proof -
  have g: "date_obj_of iso_reject (dated_card ''a'' ''garbage'') = None"
    by (simp add: str_defs dt_defs page_defs)
  have f: "garbage_and_old 0 (page_url_of G2 ''https://example.com/p/x/reviews'' 1)
     = Inr (ok_page [dated_card ''a'' ''garbage'', dated_card ''b'' ''2020-01-01'', undated_card ''c''])"
    by (simp add: str_defs page_defs)
  have p: "paginate G2 iso_reject garbage_and_old (Some (midnight 2023 1 1)) None
        ''https://example.com/p/x/reviews'' 0 1 [] []
       = Some ([''Fetching https://example.com/p/x/reviews?page=1'',
                ''Fetching https://example.com/p/x/reviews?page=2''],
               Inr [make_review G2 (dated_card ''a'' ''garbage'') None,
                    make_review G2 (undated_card ''c'') None])"
    by (simp add: run_defs)
  have b: "process_card G2 iso_reject (Some (midnight 2023 1 1)) None (dated_card ''b'' ''2020-01-01'')
       = Inr None"
    by (simp add: str_defs dt_defs page_defs)
  have d: "date (make_review G2 (dated_card ''a'' ''garbage'') None) = ''garbage''"
    by (simp add: page_defs)
  from unparsed_date_kept[of "dated_card ''a'' ''garbage''" iso_reject G2
      "Some (midnight 2023 1 1)" None garbage_and_old 0 "''https://example.com/p/x/reviews''" 1
      "ok_page [dated_card ''a'' ''garbage'', dated_card ''b'' ''2020-01-01'', undated_card ''c'']"
      "[]" "[]"
      "[''Fetching https://example.com/p/x/reviews?page=1'',
        ''Fetching https://example.com/p/x/reviews?page=2'']"
      "[make_review G2 (dated_card ''a'' ''garbage'') None,
        make_review G2 (undated_card ''c'') None]"]
    g f p b d
  show ?thesis by (simp add: ok_page_def)
qed

section \<open>The date field of a record\<close>

text \<open>
  C6, as the code has it. The \<open>date\<close> field of an appended record is
  \<open>isoformat()\<close> of the date object when the date text parsed: the calendar date, \<open>T\<close>
  and the time of day, which for a text parsed by one of the five formats is the
  calendar date \<open>YYYY-MM-DD\<close> followed by \<open>T00:00:00\<close>. It is the date text as found
  when parsing failed, and empty when there is no date element.
\<close>

theorem record_date_field:
  assumes "process_card st fi start end it = Inr (Some r)"
  shows "date r = (case date_obj_of fi it of
                     Some d \<Rightarrow> isoformat_date d @ ''T'' @ isoformat_time d
                   | None \<Rightarrow> date_text_of it)
         \<and> (\<forall>d. date_text_of it \<noteq> [] \<and> try_formats (date_text_of it) FORMATS = Some d \<longrightarrow>
               date r = isoformat_date d @ ''T00:00:00'' \<and> is_calendar_date (isoformat_date d))
         \<and> (date_tag it = None \<longrightarrow> date r = [])"
proof -
  from process_card_kept[OF assms] have r: "r = make_review st it (date_obj_of fi it)" .
  have 1: "date r = (case date_obj_of fi it of
                     Some d \<Rightarrow> isoformat_date d @ ''T'' @ isoformat_time d
                   | None \<Rightarrow> date_text_of it)"
    by (simp add: r make_review_def isoformat_def split: option.splits)
  have 2: "date r = isoformat_date d @ ''T00:00:00'' \<and> is_calendar_date (isoformat_date d)"
    if "date_text_of it \<noteq> [] \<and> try_formats (date_text_of it) FORMATS = Some d" for d
  proof -
    from that have "date_obj_of fi it = Some d"
      by (simp add: date_obj_of_def parse_date_try_def)
    with 1 have "date r = isoformat_date d @ ''T'' @ isoformat_time d" by simp
    moreover from that try_formats_midnight obtain y m dd where
      "d = midnight y m dd" "check_date_fields y m dd" by blast
    ultimately show ?thesis
      by (simp add: isoformat_time_midnight isoformat_date_calendar)
  qed
  have 3: "date r = []" if "date_tag it = None"
    using that 1 by (simp add: date_obj_of_def date_text_of_def)
  from 1 2 3 show ?thesis by blast
qed

theorem record_date_field_witness:
  "process_card Capterra iso_reject None None (dated_card ''t'' ''January 5, 2023'')
     = Inr (Some (make_review Capterra (dated_card ''t'' ''January 5, 2023'') (Some (midnight 2023 1 5))))
   \<and> date (make_review Capterra (dated_card ''t'' ''January 5, 2023'') (Some (midnight 2023 1 5)))
     = ''2023-01-05T00:00:00''
   \<and> process_card Capterra iso_reject None None (dated_card ''t'' ''garbage'')
     = Inr (Some (make_review Capterra (dated_card ''t'' ''garbage'') None))
   \<and> date (make_review Capterra (dated_card ''t'' ''garbage'') None) = ''garbage''
   \<and> process_card Capterra iso_reject None None (undated_card ''t'')
     = Inr (Some (make_review Capterra (undated_card ''t'') None))
   \<and> date (make_review Capterra (undated_card ''t'') None) = []"
proof -
  have a: "process_card Capterra iso_reject None None (dated_card ''t'' ''January 5, 2023'')
     = Inr (Some (make_review Capterra (dated_card ''t'' ''January 5, 2023'') (Some (midnight 2023 1 5))))"
    by (simp add: str_defs dt_defs page_defs)
  have b: "process_card Capterra iso_reject None None (dated_card ''t'' ''garbage'')
     = Inr (Some (make_review Capterra (dated_card ''t'' ''garbage'') None))"
    by (simp add: str_defs dt_defs page_defs)
  have c: "process_card Capterra iso_reject None None (undated_card ''t'')
     = Inr (Some (make_review Capterra (undated_card ''t'') None))"
    by (simp add: str_defs dt_defs page_defs)
  have pa: "date_obj_of iso_reject (dated_card ''t'' ''January 5, 2023'') = Some (midnight 2023 1 5)"
    by (simp add: str_defs dt_defs page_defs)
  have pb: "date_obj_of iso_reject (dated_card ''t'' ''garbage'') = None"
    by (simp add: str_defs dt_defs page_defs)
  have pc: "date_obj_of iso_reject (undated_card ''t'') = None"
    by (simp add: str_defs dt_defs page_defs)
  from record_date_field[OF a] record_date_field[OF b] record_date_field[OF c] a b c pa pb pc
  show ?thesis
    by (simp add: isoformat_date_def isoformat_time_def format_offset_def midnight_def
          date_text_of_def dated_card_def undated_card_def str_defs)
qed

text \<open>
  C6 as stated fails: for the date text 2023-01-05 the field is 2023-01-05T00:00:00, a
  date and time, not a calendar date.
\<close>

theorem date_field_not_calendar_date_counterexample:
  "process_card G2 iso_reject None None (dated_card ''t'' ''2023-01-05'')
     = Inr (Some (make_review G2 (dated_card ''t'' ''2023-01-05'') (Some (midnight 2023 1 5))))
   \<and> date (make_review G2 (dated_card ''t'' ''2023-01-05'') (Some (midnight 2023 1 5)))
     = ''2023-01-05T00:00:00''
   \<and> \<not> is_calendar_date (date (make_review G2 (dated_card ''t'' ''2023-01-05'') (Some (midnight 2023 1 5))))
   \<and> is_calendar_date ''2023-01-05''"
  by (simp add: str_defs dt_defs page_defs is_calendar_date_def)

section \<open>The source tag\<close>

text \<open>
  C9: every record a pipeline appends carries the tag of that pipeline, and so does
  every record of the list it returns: \<open>g2\<close>, \<open>capterra\<close> or \<open>trustradius\<close>.
\<close>

theorem source_tag_per_pipeline:
  "(process_card st fi start end it = Inr (Some r) \<longrightarrow> source r = source_tag st)
   \<and> (scrape_g2 fi session company start end = Some (log, Inr out) \<longrightarrow>
        (\<forall>x\<in>set out. source x = ''g2''))
   \<and> (scrape_capterra fi session company start end = Some (log, Inr out) \<longrightarrow>
        (\<forall>x\<in>set out. source x = ''capterra''))
   \<and> (scrape_trustradius fi session company start end = Some (log, Inr out) \<longrightarrow>
        (\<forall>x\<in>set out. source x = ''trustradius''))"
proof (intro conjI impI)
  show "source r = source_tag st" if "process_card st fi start end it = Inr (Some r)"
    using that by (rule process_card_source)
  show "\<forall>x\<in>set out. source x = ''g2''"
    if "scrape_g2 fi session company start end = Some (log, Inr out)"
    using scrape_all[where P = "\<lambda>x. source x = source_tag G2", OF that[unfolded scrape_g2_def]]
      process_card_source by simp
  show "\<forall>x\<in>set out. source x = ''capterra''"
    if "scrape_capterra fi session company start end = Some (log, Inr out)"
    using scrape_all[where P = "\<lambda>x. source x = source_tag Capterra", OF that[unfolded scrape_capterra_def]]
      process_card_source by simp
  show "\<forall>x\<in>set out. source x = ''trustradius''"
    if "scrape_trustradius fi session company start end = Some (log, Inr out)"
    using scrape_all[where P = "\<lambda>x. source x = source_tag TrustRadius", OF that[unfolded scrape_trustradius_def]]
      process_card_source by simp
qed

theorem source_tag_per_pipeline_witness:
  "scrape_trustradius iso_reject old_then_new ''https://example.com/p/x/reviews'' None None
     = Some ([''Fetching https://example.com/p/x/reviews?page=1'',
              ''Fetching https://example.com/p/x/reviews?page=2'',
              ''Fetching https://example.com/p/x/reviews?page=3''],
             Inr [make_review TrustRadius (dated_card ''old'' ''2020-01-01'') (Some (midnight 2020 1 1)),
                  make_review TrustRadius (dated_card ''new'' ''2023-06-01'') (Some (midnight 2023 6 1))])
   \<and> map source
        [make_review TrustRadius (dated_card ''old'' ''2020-01-01'') (Some (midnight 2020 1 1)),
         make_review TrustRadius (dated_card ''new'' ''2023-06-01'') (Some (midnight 2023 6 1))]
     = [''trustradius'', ''trustradius'']"
proof -
  have run: "scrape_trustradius iso_reject old_then_new ''https://example.com/p/x/reviews'' None None
     = Some ([''Fetching https://example.com/p/x/reviews?page=1'',
              ''Fetching https://example.com/p/x/reviews?page=2'',
              ''Fetching https://example.com/p/x/reviews?page=3''],
             Inr [make_review TrustRadius (dated_card ''old'' ''2020-01-01'') (Some (midnight 2020 1 1)),
                  make_review TrustRadius (dated_card ''new'' ''2023-06-01'') (Some (midnight 2023 6 1))])"
    by (simp add: run_defs)
  from source_tag_per_pipeline[of TrustRadius iso_reject None None "undated_card ''c''"
      "make_review TrustRadius (undated_card ''c'') None" old_then_new
      "''https://example.com/p/x/reviews''"
      "[''Fetching https://example.com/p/x/reviews?page=1'',
        ''Fetching https://example.com/p/x/reviews?page=2'',
        ''Fetching https://example.com/p/x/reviews?page=3'']"
      "[make_review TrustRadius (dated_card ''old'' ''2020-01-01'') (Some (midnight 2020 1 1)),
        make_review TrustRadius (dated_card ''new'' ''2023-06-01'') (Some (midnight 2023 6 1))]"]
    run
  show ?thesis by simp
qed

section \<open>A source that fails\<close>

text \<open>
  C7: with all three sources requested and each pipeline ending, with an exception or
  with a list, \<open>main\<close> runs all three in the order g2, capterra, trustradius, prints
  for each either its count or one error line naming it, and hands on the lists of the
  pipelines that returned, concatenated in that order; a pipeline that raised adds
  nothing.
\<close>

theorem failing_source_is_skipped:
  assumes "arg_source a = ''all''"
    and "scrape_g2 fi (sessions ''g2'') (arg_company a)
           (parse_bound fi (arg_start a)) (parse_bound fi (arg_end a)) = Some (l1, o1)"
    and "scrape_capterra fi (sessions ''capterra'') (arg_company a)
           (parse_bound fi (arg_start a)) (parse_bound fi (arg_end a)) = Some (l2, o2)"
    and "scrape_trustradius fi (sessions ''trustradius'') (arg_company a)
           (parse_bound fi (arg_start a)) (parse_bound fi (arg_end a)) = Some (l3, o3)"
  shows "main fi sessions a =
           Some (l1 @ [source_line ''g2'' o1] @ l2 @ [source_line ''capterra'' o2]
                   @ l3 @ [source_line ''trustradius'' o3]
                   @ [''Wrote '' @ str_nat (length (contributed o1 @ contributed o2 @ contributed o3))
                        @ '' reviews to '' @ arg_output a],
                 contributed o1 @ contributed o2 @ contributed o3)"
proof -
  let ?run = "run_source fi sessions (arg_company a) (parse_bound fi (arg_start a))
                (parse_bound fi (arg_end a))"
  let ?lines = "\<lambda>s. if s = ''g2'' then l1 else if s = ''capterra'' then l2 else l3"
  let ?outcome = "\<lambda>s. if s = ''g2'' then o1 else if s = ''capterra'' then o2 else o3"
  have "\<forall>s\<in>set [''g2'', ''capterra'', ''trustradius'']. ?run s = Some (?lines s, ?outcome s)"
    using assms(2-4) by (simp add: run_source_def)
  from for_sources_all[where run = ?run and lines = ?lines and outcome = ?outcome, OF this, of "[]" "[]"]
  have "for_sources ?run [''g2'', ''capterra'', ''trustradius''] [] [] =
      Some (l1 @ [source_line ''g2'' o1] @ l2 @ [source_line ''capterra'' o2]
                   @ l3 @ [source_line ''trustradius'' o3],
            contributed o1 @ contributed o2 @ contributed o3)"
    by simp
  then show ?thesis
    using assms(1) by (simp add: main_def)
qed

theorem failing_source_is_skipped_witness:
  "map_option (\<lambda>(log, out). (filter (prefix ''Error'') log, length out, map source out))
     (main iso_reject three_sources example_args)
   = Some ([''Error scraping g2: connection refused''], 8,
           [''capterra'', ''capterra'', ''capterra'', ''trustradius'', ''trustradius'',
            ''trustradius'', ''trustradius'', ''trustradius''])"
proof -
  have s: "arg_source example_args = ''all''" by (simp add: example_args_def)
  have g: "scrape_g2 iso_reject (three_sources ''g2'') (arg_company example_args)
           (parse_bound iso_reject (arg_start example_args))
           (parse_bound iso_reject (arg_end example_args))
         = Some ([''Fetching https://example.com/p/x/reviews?page=1''],
                 Inl (RequestException ''connection refused''))"
    by (simp add: run_defs parse_bound_def)
  have c: "scrape_capterra iso_reject (three_sources ''capterra'') (arg_company example_args)
           (parse_bound iso_reject (arg_start example_args))
           (parse_bound iso_reject (arg_end example_args))
         = Some ([''Fetching https://example.com/p/x/reviews?page=1'',
                  ''Fetching https://example.com/p/x/reviews?page=2''],
                 Inr (map (\<lambda>h. make_review Capterra (undated_card h) None) [''c1'', ''c2'', ''c3'']))"
    by (simp add: run_defs parse_bound_def)
  have t: "scrape_trustradius iso_reject (three_sources ''trustradius'') (arg_company example_args)
           (parse_bound iso_reject (arg_start example_args))
           (parse_bound iso_reject (arg_end example_args))
         = Some ([''Fetching https://example.com/p/x/reviews?page=1'',
                  ''Fetching https://example.com/p/x/reviews?page=2''],
                 Inr (map (\<lambda>h. make_review TrustRadius (undated_card h) None)
                        [''t1'', ''t2'', ''t3'', ''t4'', ''t5'']))"
    by (simp add: run_defs parse_bound_def)
  show ?thesis
    by (simp add: failing_source_is_skipped[OF s g c t] source_line_def contributed_def
          make_review_def str_defs)
qed

section \<open>A bound that does not parse\<close>

text \<open>
  C10: when the text given for \<open>--start\<close> or \<open>--end\<close> does not parse, the bound is
  \<open>None\<close> and the whole run, the lines printed to the error stream included, is the
  run without that option.
\<close>

theorem unparseable_bound_ignored:
  assumes "parse_date_try fromisoformat s = None"
  shows "parse_bound fromisoformat (Some s) = None
         \<and> main fromisoformat sessions (a\<lparr>arg_start := Some s\<rparr>)
           = main fromisoformat sessions (a\<lparr>arg_start := None\<rparr>)
         \<and> main fromisoformat sessions (a\<lparr>arg_end := Some s\<rparr>)
           = main fromisoformat sessions (a\<lparr>arg_end := None\<rparr>)"
proof -
  have "parse_bound fromisoformat (Some s) = parse_bound fromisoformat None"
    using assms by (simp add: parse_bound_def)
  then show ?thesis
    by (auto intro!: main_cong simp: parse_bound_def)
qed

theorem unparseable_bound_ignored_witness:
  "parse_date_try iso_reject ''garbage'' = None
   \<and> parse_bound iso_reject (Some ''garbage'') = None
   \<and> main iso_reject three_sources (example_args\<lparr>arg_start := Some ''garbage''\<rparr>)
     = main iso_reject three_sources (example_args\<lparr>arg_start := None\<rparr>)
   \<and> main iso_reject three_sources (example_args\<lparr>arg_end := Some ''garbage''\<rparr>)
     = main iso_reject three_sources (example_args\<lparr>arg_end := None\<rparr>)"
proof -
  have g: "parse_date_try iso_reject ''garbage'' = None"
    by (simp add: str_defs dt_defs)
  from unparseable_bound_ignored[OF g, of three_sources example_args] g
  show ?thesis by simp
qed

section \<open>Further properties of the pipelines\<close>

text \<open>
  A company name, not a URL, whose search finds no result link (or one with an empty
  \<open>href\<close>): after the one search request the product URL is the site's fixed template
  around the slug, the name in lower case with hyphens for spaces.
\<close>

theorem product_url_fallback:
  assumes "\<not> startswith company ''http''"
    and "session 0 (search_prefix st @ replace CHR '' '' CHR ''+'' company) = Inr r"
    and "link_href r = None \<or> link_href r = Some []"
  shows "product_url_of st session company
           = Inr (1, fallback_url st (replace CHR '' '' CHR ''-'' (lower company)))"
  using assms by (auto simp: product_url_of_def Let_def)

theorem product_url_fallback_witness:
  "\<not> startswith ''Acme Corp'' ''http''
   \<and> serve [] 0 (search_prefix G2 @ replace CHR '' '' CHR ''+'' ''Acme Corp'') = Inr not_found
   \<and> link_href not_found = None
   \<and> product_url_of G2 (serve []) ''Acme Corp''
       = Inr (1, ''https://www.g2.com/products/acme-corp/reviews'')
   \<and> product_url_of Capterra (serve []) ''Acme Corp''
       = Inr (1, ''https://www.capterra.com/p/acme-corp/#reviews'')"
proof -
  have a: "\<not> startswith ''Acme Corp'' ''http''" by (simp add: startswith_def)
  have b: "serve [] 0 (search_prefix st @ replace CHR '' '' CHR ''+'' ''Acme Corp'') = Inr not_found"
    for st by (simp add: serve_def)
  have c: "link_href not_found = None \<or> link_href not_found = Some []"
    by (simp add: not_found_def)
  from product_url_fallback[where session = "serve []" and st = G2, OF a b c]
    product_url_fallback[where session = "serve []" and st = Capterra, OF a b c] a b[of G2] c
  show ?thesis by (simp add: str_defs not_found_def)
qed

text \<open>
  A page answered with a status other than 200, or on which no selector finds a card,
  ends the loop: the pipeline returns the reviews gathered so far and that page adds
  nothing.
\<close>

theorem paginate_ends_on_empty_page:
  assumes "session n (page_url_of st product_url page) = Inr r"
    and "status_code r \<noteq> 200 \<or> select_items st r = []"
  shows "paginate st fi session start end product_url n page reviews log
           = Some (log @ [''Fetching '' @ page_url_of st product_url page], Inr reviews)"
  using assms by (subst paginate.simps) (auto simp: Let_def)

theorem paginate_ends_on_empty_page_witness:
  "old_then_new 2 (page_url_of Capterra ''https://example.com/p/x/reviews'' 3) = Inr not_found
   \<and> status_code not_found = 404
   \<and> paginate Capterra iso_reject old_then_new None None ''https://example.com/p/x/reviews'' 2 3
        [make_review Capterra (undated_card ''c'') None] []
       = Some ([''Fetching https://example.com/p/x/reviews?page=3''],
               Inr [make_review Capterra (undated_card ''c'') None])"
proof -
  have a: "old_then_new 2 (page_url_of Capterra ''https://example.com/p/x/reviews'' 3) = Inr not_found"
    by (simp add: str_defs page_defs)
  have b: "status_code not_found \<noteq> 200 \<or> select_items Capterra not_found = []"
    by (simp add: not_found_def)
  from paginate_ends_on_empty_page[where session = old_then_new and n = 2 and st = Capterra
      and product_url = "''https://example.com/p/x/reviews''" and page = 3, OF a b,
      of iso_reject None None "[make_review Capterra (undated_card ''c'') None]" "[]"] a
  show ?thesis by (simp add: str_defs page_defs)
qed

text \<open>
  A request that fails in transport leaves the pipeline with that exception: the
  reviews gathered on earlier pages are not returned.
\<close>

theorem paginate_raises_on_transport_error:
  assumes "session n (page_url_of st product_url page) = Inl e"
  shows "paginate st fi session start end product_url n page reviews log
           = Some (log @ [''Fetching '' @ page_url_of st product_url page], Inl e)"
  using assms by (subst paginate.simps) (simp add: Let_def)

theorem paginate_raises_on_transport_error_witness:
  "unreachable 1 (page_url_of G2 ''https://example.com/p/x/reviews'' 2)
     = Inl (RequestException ''connection refused'')
   \<and> paginate G2 iso_reject unreachable None None ''https://example.com/p/x/reviews'' 1 2
        [make_review G2 (undated_card ''c'') None] []
       = Some ([''Fetching https://example.com/p/x/reviews?page=2''],
               Inl (RequestException ''connection refused''))"
proof -
  have a: "unreachable 1 (page_url_of G2 ''https://example.com/p/x/reviews'' 2)
     = Inl (RequestException ''connection refused'')"
    by (simp add: unreachable_def)
  from paginate_raises_on_transport_error[where session = unreachable and n = 1 and st = G2
      and product_url = "''https://example.com/p/x/reviews''" and page = 2, OF a,
      of iso_reject None None "[make_review G2 (undated_card ''c'') None]" "[]"] a
  show ?thesis by (simp add: str_defs page_defs)
qed

end
